theory Spec2Isabelle
  imports Complex_Main "HOL-Library.Multiset"
begin

section \<open>JavaScript values\<close>

text \<open>
  The utilities of \<^verbatim>\<open>muze-utils/src/common-utils.js\<close> and the canvas helpers are
  dynamically typed, so every argument is a JavaScript value. Numbers are IEEE doubles; the
  code below only compares them and takes minima and maxima, so a finite number is a
  \<^typ>\<open>real\<close>, with \<open>Fin 0\<close> for \<^verbatim>\<open>+0\<close>, and \<^verbatim>\<open>-0\<close> is a number of its own, which
  \<^verbatim>\<open>===\<close> equates with \<^verbatim>\<open>+0\<close> and \<^verbatim>\<open>Object.is\<close> does not. Arrays and objects carry the
  identity that \<^verbatim>\<open>===\<close> and \<^verbatim>\<open>Object.is\<close> compare; arrays are dense.
  An object is its identity and its constructor's name, and is not array-like: it has no
  \<^verbatim>\<open>length\<close> and no index properties. An Error object carries its message.
  Function values are not data of this model: the hooks of a descriptor are HOL functions
  (see the transactor).
\<close>

datatype jsnum = NaN | NegInf | Fin real | NegZero | PosInf

type_synonym ref = nat

datatype jsval =
    Undefined
  | Null
  | Bool bool
  | Num jsnum
  | Str string
  | Arr ref "jsval list"
  | Obj ref string
  | ErrorObj ref string

text \<open>A thrown exception. Everything the modelled code throws itself is a TypeError.\<close>

datatype error = TypeError

text \<open>Sequencing of calls that may throw: the first exception ends the computation.\<close>

fun bindE :: "error + 'a \<Rightarrow> ('a \<Rightarrow> error + 'b) \<Rightarrow> error + 'b" where
  "bindE (Inl e) f = Inl e"
| "bindE (Inr x) f = f x"

fun truthy :: "jsval \<Rightarrow> bool" where
  "truthy Undefined = False"
| "truthy Null = False"
| "truthy (Bool b) = b"
| "truthy (Num NaN) = False"
| "truthy (Num NegZero) = False"
| "truthy (Num (Fin x)) = (x \<noteq> 0)"
| "truthy (Num _) = True"
| "truthy (Str s) = (s \<noteq> [])"
| "truthy _ = True"

text \<open>\<^verbatim>\<open>typeof v\<close>\<close>

fun typeof :: "jsval \<Rightarrow> string" where
  "typeof Undefined = ''undefined''"
| "typeof (Bool _) = ''boolean''"
| "typeof (Num _) = ''number''"
| "typeof (Str _) = ''string''"
| "typeof _ = ''object''"

text \<open>
  \<^verbatim>\<open>a === b\<close>: primitives by value (NaN equals nothing, the two zeros equal each other),
  arrays and objects by identity.
\<close>

fun strictEq :: "jsval \<Rightarrow> jsval \<Rightarrow> bool" where
  "strictEq Undefined Undefined = True"
| "strictEq Null Null = True"
| "strictEq (Bool a) (Bool b) = (a = b)"
| "strictEq (Num a) (Num b) =
     (a \<noteq> NaN \<and> (a = b \<or> (a = Fin 0 \<and> b = NegZero) \<or> (a = NegZero \<and> b = Fin 0)))"
| "strictEq (Str a) (Str b) = (a = b)"
| "strictEq (Arr r _) (Arr r' _) = (r = r')"
| "strictEq (Obj r _) (Obj r' _) = (r = r')"
| "strictEq (ErrorObj r _) (ErrorObj r' _) = (r = r')"
| "strictEq _ _ = False"

text \<open>
  \<^verbatim>\<open>Object.is(a, b)\<close>: as \<^verbatim>\<open>===\<close>, but two numbers are the same only if they are the
  same number: NaN is NaN, and \<^verbatim>\<open>+0\<close> is not \<^verbatim>\<open>-0\<close>.
\<close>

fun objectIs :: "jsval \<Rightarrow> jsval \<Rightarrow> bool" where
  "objectIs (Num a) (Num b) = (a = b)"
| "objectIs a b = strictEq a b"

text \<open>\<^verbatim>\<open>v.constructor.name\<close>; \<^verbatim>\<open>undefined\<close> and \<^verbatim>\<open>null\<close> have no properties.\<close>

fun constructorName :: "jsval \<Rightarrow> error + jsval" where
  "constructorName Undefined = Inl TypeError"
| "constructorName Null = Inl TypeError"
| "constructorName (Bool _) = Inr (Str ''Boolean'')"
| "constructorName (Num _) = Inr (Str ''Number'')"
| "constructorName (Str _) = Inr (Str ''String'')"
| "constructorName (Arr _ _) = Inr (Str ''Array'')"
| "constructorName (Obj _ c) = Inr (Str c)"
| "constructorName (ErrorObj _ _) = Inr (Str ''Error'')"

text \<open>The decimal name of an array index, as property keys spell it.\<close>

fun showNat :: "nat \<Rightarrow> string" where
  "showNat n =
     (if n < 10 then [char_of (48 + n)] else showNat (n div 10) @ [char_of (48 + n mod 10)])"

declare showNat.simps [simp del]

text \<open>\<^verbatim>\<open>xs[i]\<close> on the elements of an array: \<^verbatim>\<open>undefined\<close> out of range.\<close>

definition nth_or_undefined :: "jsval list \<Rightarrow> nat \<Rightarrow> jsval" where
  "nth_or_undefined xs i = (if i < length xs then xs ! i else Undefined)"

text \<open>
  \<^verbatim>\<open>v[i]\<close> for a number \<open>i\<close>, and \<^verbatim>\<open>v.length\<close>. Reading a property of
  \<^verbatim>\<open>undefined\<close> or \<^verbatim>\<open>null\<close> throws; only arrays and strings have these properties.
\<close>

fun getIndex :: "jsval \<Rightarrow> nat \<Rightarrow> error + jsval" where
  "getIndex Undefined i = Inl TypeError"
| "getIndex Null i = Inl TypeError"
| "getIndex (Arr _ xs) i = Inr (nth_or_undefined xs i)"
| "getIndex (Str s) i = Inr (if i < length s then Str [s ! i] else Undefined)"
| "getIndex _ i = Inr Undefined"

fun getLength :: "jsval \<Rightarrow> error + jsval" where
  "getLength Undefined = Inl TypeError"
| "getLength Null = Inl TypeError"
| "getLength (Arr _ xs) = Inr (Num (Fin (real (length xs))))"
| "getLength (Str s) = Inr (Num (Fin (real (length s))))"
| "getLength _ = Inr Undefined"

text \<open>
  \<^verbatim>\<open>key in v\<close>. It throws unless \<open>v\<close> is an object (\<^verbatim>\<open>null\<close> is not one). An
  array has its indices and \<^verbatim>\<open>length\<close>; which other names an array or object has, of
  its own or through its prototype chain, is the runtime's knowledge: \<open>has v key\<close>.
\<close>

fun hasProperty :: "(jsval \<Rightarrow> string \<Rightarrow> bool) \<Rightarrow> string \<Rightarrow> jsval \<Rightarrow> error + bool" where
  "hasProperty has k (Arr r xs) =
     Inr (k = ''length'' \<or> k \<in> set (map showNat [0..<length xs]) \<or> has (Arr r xs) k)"
| "hasProperty has k (Obj r c) = Inr (has (Obj r c) k)"
| "hasProperty has k (ErrorObj r m) = Inr (has (ErrorObj r m) k)"
| "hasProperty has k _ = Inl TypeError"

section \<open>Argument sanitization: \<^verbatim>\<open>checkExistence\<close> and \<^verbatim>\<open>sanitizeIP.typeObj\<close>\<close>

text \<open>
  \<^verbatim>\<open>keys.forEach(key => { if (key in obj) return; nonExistentKeys.push(key); })\<close>:
  the keys collected so far are the accumulator; a throwing \<^verbatim>\<open>in\<close> ends the loop.
\<close>

fun checkExistence_loop ::
  "(jsval \<Rightarrow> string \<Rightarrow> bool) \<Rightarrow> string list \<Rightarrow> jsval \<Rightarrow> string list \<Rightarrow> error + string list" where
  "checkExistence_loop has [] obj nonExistentKeys = Inr nonExistentKeys"
| "checkExistence_loop has (key # keys) obj nonExistentKeys =
     bindE (hasProperty has key obj) (\<lambda>present.
       if present then checkExistence_loop has keys obj nonExistentKeys
       else checkExistence_loop has keys obj (nonExistentKeys @ [key]))"

definition checkExistence ::
  "(jsval \<Rightarrow> string \<Rightarrow> bool) \<Rightarrow> string list \<Rightarrow> jsval \<Rightarrow> error + string list" where
  "checkExistence has keys obj = checkExistence_loop has keys obj []"

text \<open>\<^verbatim>\<open>xs.join(', ')\<close>\<close>

fun join :: "string \<Rightarrow> string list \<Rightarrow> string" where
  "join sep [] = []"
| "join sep [x] = x"
| "join sep (x # y # ys) = x @ sep @ join sep (y # ys)"

text \<open>
  \<^verbatim>\<open>Error(message)\<close> makes a new object; \<open>r\<close> is the identity it gets.
\<close>

definition typeObj ::
  "(jsval \<Rightarrow> string \<Rightarrow> bool) \<Rightarrow> ref \<Rightarrow> string list \<Rightarrow> jsval \<Rightarrow> error + jsval" where
  "typeObj has r keys obj =
     (if typeof obj \<noteq> ''object'' then Inr (ErrorObj r ''Argument type object expected'')
      else bindE (checkExistence has keys obj) (\<lambda>nonExistentKeys.
             if nonExistentKeys \<noteq> []
             then Inr (ErrorObj r (''Missing keys from parameter '' @ join '', '' nonExistentKeys))
             else Inr obj))"

section \<open>Domains: \<^verbatim>\<open>unionDomain\<close>\<close>

text \<open>
  Modelled from the spec: the enum constant \<^verbatim>\<open>DimensionSubtype.CATEGORICAL\<close> of
  \<^verbatim>\<open>./enums\<close>, which is not among the sources; the spec calls these fields categorical.
  The code only compares a field type with it.
\<close>

definition CATEGORICAL :: string where
  "CATEGORICAL = ''categorical''"

text \<open>
  \<^verbatim>\<open>Math.min\<close> and \<^verbatim>\<open>Math.max\<close> convert every argument to a number, answer NaN if one
  of them is NaN, start from \<^verbatim>\<open>+Infinity\<close> and \<^verbatim>\<open>-Infinity\<close>, and take \<^verbatim>\<open>-0\<close> to be
  less than \<^verbatim>\<open>+0\<close>. The conversion of strings, arrays and objects to numbers is the
  runtime's: \<open>conv\<close>.
\<close>

fun toNumber :: "(jsval \<Rightarrow> jsnum) \<Rightarrow> jsval \<Rightarrow> jsnum" where
  "toNumber conv Undefined = NaN"
| "toNumber conv Null = Fin 0"
| "toNumber conv (Bool b) = Fin (if b then 1 else 0)"
| "toNumber conv (Num n) = n"
| "toNumber conv v = conv v"

fun num_min :: "jsnum \<Rightarrow> jsnum \<Rightarrow> jsnum" where
  "num_min NaN _ = NaN"
| "num_min _ NaN = NaN"
| "num_min NegInf _ = NegInf"
| "num_min _ NegInf = NegInf"
| "num_min PosInf b = b"
| "num_min a PosInf = a"
| "num_min (Fin x) (Fin y) = Fin (min x y)"
| "num_min (Fin x) NegZero = (if x < 0 then Fin x else NegZero)"
| "num_min NegZero (Fin y) = (if y < 0 then Fin y else NegZero)"
| "num_min NegZero NegZero = NegZero"

fun num_max :: "jsnum \<Rightarrow> jsnum \<Rightarrow> jsnum" where
  "num_max NaN _ = NaN"
| "num_max _ NaN = NaN"
| "num_max PosInf _ = PosInf"
| "num_max _ PosInf = PosInf"
| "num_max NegInf b = b"
| "num_max a NegInf = a"
| "num_max (Fin x) (Fin y) = Fin (max x y)"
| "num_max (Fin x) NegZero = (if x < 0 then NegZero else Fin x)"
| "num_max NegZero (Fin y) = (if y < 0 then NegZero else Fin y)"
| "num_max NegZero NegZero = NegZero"

definition Math_min :: "(jsval \<Rightarrow> jsnum) \<Rightarrow> jsval list \<Rightarrow> jsval" where
  "Math_min conv args = Num (foldl num_min PosInf (map (toNumber conv) args))"

definition Math_max :: "(jsval \<Rightarrow> jsnum) \<Rightarrow> jsval list \<Rightarrow> jsval" where
  "Math_max conv args = Num (foldl num_max NegInf (map (toNumber conv) args))"

text \<open>\<^verbatim>\<open>domains.filter(dom => dom.length)\<close>\<close>

fun filter_length :: "jsval list \<Rightarrow> error + jsval list" where
  "filter_length [] = Inr []"
| "filter_length (d # domains) =
     bindE (getLength d) (\<lambda>len.
     bindE (filter_length domains) (\<lambda>rest.
       Inr (if truthy len then d # rest else rest)))"

text \<open>\<^verbatim>\<open>domains.map(d => d[i])\<close>\<close>

fun map_index :: "nat \<Rightarrow> jsval list \<Rightarrow> error + jsval list" where
  "map_index i [] = Inr []"
| "map_index i (d # domains) =
     bindE (getIndex d i) (\<lambda>x.
     bindE (map_index i domains) (\<lambda>rest. Inr (x # rest)))"

text \<open>
  \<^verbatim>\<open>[].concat(...domains)\<close>: an argument that is an array contributes its elements, any
  other argument contributes itself.
\<close>

fun concat_spread :: "jsval list \<Rightarrow> jsval list" where
  "concat_spread [] = []"
| "concat_spread (Arr _ xs # domains) = xs @ concat_spread domains"
| "concat_spread (v # domains) = v # concat_spread domains"

text \<open>
  \<^verbatim>\<open>unionDomain(domains, fieldType)\<close>. The result is a new array; the model returns
  its elements.
\<close>

definition unionDomain :: "(jsval \<Rightarrow> jsnum) \<Rightarrow> jsval list \<Rightarrow> jsval \<Rightarrow> error + jsval list" where
  "unionDomain conv domains fieldType =
     bindE (filter_length domains) (\<lambda>domains.
       if strictEq fieldType (Str CATEGORICAL) then Inr (concat_spread domains)
       else bindE (map_index 0 domains) (\<lambda>lowers.
            bindE (map_index 1 domains) (\<lambda>uppers.
              Inr [Math_min conv lowers, Math_max conv uppers])))"

section \<open>Change detection of the canvas\<close>

text \<open>
  Modelled from the spec: the property names \<^verbatim>\<open>ROWS\<close>, \<^verbatim>\<open>COLUMNS\<close>, \<^verbatim>\<open>DETAIL\<close>,
  \<^verbatim>\<open>SHAPE\<close>, \<^verbatim>\<open>SIZE\<close>, \<^verbatim>\<open>COLOR\<close>, \<^verbatim>\<open>DATA\<close> and \<^verbatim>\<open>CONFIG\<close> of
  \<^verbatim>\<open>../constants\<close>, which is not among the sources; the spec names the categories rows,
  columns, detail, shape, size, color, data and config.
\<close>

definition ROWS :: string where "ROWS = ''rows''"
definition COLUMNS :: string where "COLUMNS = ''columns''"
definition DETAIL :: string where "DETAIL = ''detail''"
definition SHAPE :: string where "SHAPE = ''shape''"
definition SIZE :: string where "SIZE = ''size''"
definition COLOR :: string where "COLOR = ''color''"
definition DATA :: string where "DATA = ''data''"
definition CONFIG :: string where "CONFIG = ''config''"

text \<open>
  \<^verbatim>\<open>arraysEqual(arr1, arr2)\<close>. The loop \<^verbatim>\<open>for (let i = arr1.length; i--;)\<close> visits
  the indices below the length from the last to the first; a length is a natural number
  or \<^verbatim>\<open>undefined\<close>, which \<^verbatim>\<open>i--\<close> turns into NaN, ending the loop at once.
\<close>

fun arraysEqual_loop :: "jsval \<Rightarrow> jsval \<Rightarrow> nat \<Rightarrow> error + bool" where
  "arraysEqual_loop arr1 arr2 0 = Inr True"
| "arraysEqual_loop arr1 arr2 (Suc i) =
     bindE (getIndex arr1 i) (\<lambda>x.
     bindE (getIndex arr2 i) (\<lambda>y.
       if \<not> strictEq x y then Inr False else arraysEqual_loop arr1 arr2 i))"

fun counter :: "jsval \<Rightarrow> nat" where
  "counter (Num (Fin x)) = nat \<lfloor>x\<rfloor>"
| "counter _ = 0"

definition arraysEqual :: "jsval \<Rightarrow> jsval \<Rightarrow> error + bool" where
  "arraysEqual arr1 arr2 =
     bindE (getLength arr1) (\<lambda>len1.
     bindE (getLength arr2) (\<lambda>len2.
       if \<not> strictEq len1 len2 then Inr False
       else arraysEqual_loop arr1 arr2 (counter len1)))"

definition isEqual :: "string \<Rightarrow> jsval \<Rightarrow> jsval \<Rightarrow> error + bool" where
  "isEqual type oldVal newVal =
     (if type = ''Array'' then
        (if \<not> truthy oldVal then Inr False else arraysEqual oldVal newVal)
      else if type = ''Object'' then Inr (objectIs oldVal newVal)
      else Inr (strictEq oldVal newVal))"

text \<open>
  The store hands the listener one \<^verbatim>\<open>[oldValue, newValue]\<close> pair for each watched
  property; \<^verbatim>\<open>params[i][0]\<close> throws when there is no \<open>i\<close>-th pair.
\<close>

type_synonym params = "(jsval \<times> jsval) list"

definition pair_at :: "params \<Rightarrow> nat \<Rightarrow> error + jsval \<times> jsval" where
  "pair_at ps i = (if i < length ps then Inr (ps ! i) else Inl TypeError)"

text \<open>The \<^verbatim>\<open>switch\<close> of \<^verbatim>\<open>equalityChecker\<close>: the checker chosen for a property.\<close>

definition checker :: "string \<Rightarrow> jsval \<Rightarrow> jsval \<Rightarrow> error + bool" where
  "checker option =
     (if option = ROWS \<or> option = COLUMNS \<or> option = DETAIL then isEqual ''Array''
      else if option = SHAPE \<or> option = SIZE \<or> option = COLOR \<or> option = DATA \<or> option = CONFIG
        then isEqual ''Object''
      else (\<lambda>oldVal newVal. Inr True))"

text \<open>\<^verbatim>\<open>props.every((option, i) => ...)\<close> stops at the first property whose callback is false.\<close>

fun equalityChecker_every :: "string list \<Rightarrow> nat \<Rightarrow> params \<Rightarrow> error + bool" where
  "equalityChecker_every [] i ps = Inr True"
| "equalityChecker_every (option # props) i ps =
     bindE (pair_at ps i) (\<lambda>(oldVal, newVal).
     bindE (checker option oldVal newVal) (\<lambda>same.
       if same then equalityChecker_every props (Suc i) ps else Inr False))"

definition equalityChecker :: "string list \<Rightarrow> params \<Rightarrow> error + bool" where
  "equalityChecker props ps = bindE (equalityChecker_every props 0 ps) (\<lambda>every. Inr (\<not> every))"

text \<open>
  \<^verbatim>\<open>val.isEmpty()\<close> is a method of the data model, a collaborator outside the
  repository: \<open>isEmpty val\<close> is what the call returns, or throws when \<open>val\<close> has no such
  method.
\<close>

definition valid :: "(jsval \<Rightarrow> error + jsval) \<Rightarrow> string \<Rightarrow> jsval \<Rightarrow> error + bool" where
  "valid isEmpty option val =
     (if option = ROWS \<or> option = COLUMNS then Inr (\<not> strictEq val Null)
      else if option = DATA then
        (if truthy val then bindE (isEmpty val) (\<lambda>empty. Inr (\<not> truthy empty)) else Inr False)
      else Inr True)"

fun updateChecker_every ::
  "(jsval \<Rightarrow> error + jsval) \<Rightarrow> string list \<Rightarrow> nat \<Rightarrow> params \<Rightarrow> error + bool" where
  "updateChecker_every isEmpty [] i ps = Inr True"
| "updateChecker_every isEmpty (option # props) i ps =
     bindE (pair_at ps i) (\<lambda>(oldVal, val).
     bindE (valid isEmpty option val) (\<lambda>ok.
       if ok then updateChecker_every isEmpty props (Suc i) ps else Inr False))"

definition updateChecker :: "(jsval \<Rightarrow> error + jsval) \<Rightarrow> string list \<Rightarrow> params \<Rightarrow> error + bool" where
  "updateChecker isEmpty props ps = updateChecker_every isEmpty props 0 ps"

text \<open>
  The listener that \<^verbatim>\<open>setupChangeListener\<close> registers. \<open>mount\<close> is the value of
  \<^verbatim>\<open>context.mount()\<close>; \<open>downstream\<close> is \<^verbatim>\<open>dispatchProps(context); context.render()\<close>,
  acting on the state \<open>w\<close> of the canvas. The result of \<^verbatim>\<open>equalityChecker\<close> is
  assigned to \<^verbatim>\<open>updateProps\<close> and then overwritten.
\<close>

definition changeListener ::
  "(jsval \<Rightarrow> error + jsval) \<Rightarrow> jsval \<Rightarrow> ('w \<Rightarrow> error + 'w) \<Rightarrow> string list \<Rightarrow> params \<Rightarrow> 'w \<Rightarrow> error + 'w" where
  "changeListener isEmpty mount downstream props ps w =
     bindE (equalityChecker props ps) (\<lambda>updateProps.
     bindE (updateChecker isEmpty props ps) (\<lambda>updateProps.
       if updateProps \<and> truthy mount then downstream w else Inr w))"

section \<open>The transactor: accessors made from property descriptors\<close>

text \<open>
  \<^verbatim>\<open>transactor(holder, options, model)\<close> appends each property's default value to the
  store and mounts on \<^verbatim>\<open>holder\<close>, for each property \<open>key\<close> of \<^verbatim>\<open>options\<close>, the
  accessor closed over the store, \<open>key\<close> and the descriptor's \<^verbatim>\<open>meta\<close>. The store is a
  reactive model of the hyperdis library: \<^verbatim>\<open>store.prop(key)\<close> reads a property and
  \<^verbatim>\<open>store.prop(key, value)\<close> writes it. The state an accessor runs in is the store's
  properties, the identity the next new array or object gets, and whatever else of the
  holder the hooks of a descriptor can reach.
\<close>

record 'h world =
  model :: "string \<Rightarrow> jsval"
  nextRef :: ref
  holder :: 'h

text \<open>
  A hook is a function of the descriptor (\<^verbatim>\<open>sanitization\<close>, \<^verbatim>\<open>typeCheck\<close>,
  \<^verbatim>\<open>preset\<close>). It is handed its arguments and the holder, may change the state, and
  returns a value or throws.
\<close>

type_synonym 'h hook = "jsval list \<Rightarrow> 'h world \<Rightarrow> error + jsval \<times> 'h world"

text \<open>A field of \<^verbatim>\<open>meta\<close>: a plain value, a function, or an array of fields.\<close>

datatype 'h dval = DVal jsval | DFun "'h hook" | DArr "'h dval list"

record 'h meta =
  typeCheck :: "'h dval"
  typeExpected :: jsval
  sanitization :: "'h dval"
  spreadParams :: bool
  preset :: "'h dval"

fun dtruthy :: "'h dval \<Rightarrow> bool" where
  "dtruthy (DVal v) = truthy v"
| "dtruthy _ = True"

text \<open>\<^verbatim>\<open>d[i]\<close>\<close>

fun dindex :: "'h dval \<Rightarrow> nat \<Rightarrow> error + 'h dval" where
  "dindex (DVal v) i = bindE (getIndex v i) (\<lambda>x. Inr (DVal x))"
| "dindex (DFun f) i = Inr (DVal Undefined)"
| "dindex (DArr ds) i = Inr (if i < length ds then ds ! i else DVal Undefined)"

text \<open>\<^verbatim>\<open>meta.field && (spreadParams ? meta.field[i] : meta.field)\<close>\<close>

definition resolve :: "bool \<Rightarrow> 'h dval \<Rightarrow> nat \<Rightarrow> error + 'h dval" where
  "resolve spread d i = (if \<not> dtruthy d then Inr d else if spread then dindex d i else Inr d)"

text \<open>
  The calls an accessor makes to \<^verbatim>\<open>preset\<close> and to the setter \<^verbatim>\<open>context.prop(key, value)\<close>
  of the store, in the order it makes them.
\<close>

datatype call = CallPreset jsval | CallProp string jsval

text \<open>What an accessor returns: the holder when it sets, the stored value when it gets.\<close>

datatype ret = Holder | Value jsval

text \<open>
  One round of the loop over \<^verbatim>\<open>params\<close>: sanitize \<^verbatim>\<open>params[i]\<close>, check it, and push
  it on \<^verbatim>\<open>values\<close> if it is accepted.
\<close>

definition collect_step ::
  "'h meta \<Rightarrow> jsval \<Rightarrow> nat \<Rightarrow> jsval \<Rightarrow> jsval list \<Rightarrow> 'h world \<Rightarrow> error + jsval list \<times> 'h world" where
  "collect_step m prevVal i param values w =
     bindE (resolve (spreadParams m) (sanitization m) i) (\<lambda>sanitize.
     bindE (resolve (spreadParams m) (typeCheck m) i) (\<lambda>check.
     bindE (case sanitize of DFun f \<Rightarrow> f [param, prevVal] w | _ \<Rightarrow> Inr (param, w)) (\<lambda>(val, w).
       if dtruthy check then
         (case check of
            DFun f \<Rightarrow>
              bindE (if truthy (typeExpected m) \<and> spreadParams m
                     then getIndex (typeExpected m) i else Inr (typeExpected m)) (\<lambda>expected.
              let compareTo = (if truthy expected then expected else Bool True) in
              bindE (f [val] w) (\<lambda>(result, w).
                Inr (if strictEq result compareTo then values @ [val] else values, w)))
          | DVal (Str s) \<Rightarrow>
              if s = ''constructor'' then
                bindE (if spreadParams m
                       then getIndex (typeExpected m) i else Inr (typeExpected m)) (\<lambda>expected.
                  if truthy val then
                    bindE (constructorName val) (\<lambda>name.
                      Inr (if strictEq name expected then values @ [val] else values, w))
                  else Inr (values, w))
              else Inr (values, w)
          | _ \<Rightarrow> Inr (values @ [val], w))
       else Inr (values @ [val], w))))"

fun collect ::
  "'h meta \<Rightarrow> jsval \<Rightarrow> jsval list \<Rightarrow> nat \<Rightarrow> jsval list \<Rightarrow> 'h world \<Rightarrow> error + jsval list \<times> 'h world" where
  "collect m prevVal [] i values w = Inr (values, w)"
| "collect m prevVal (param # params) i values w =
     bindE (collect_step m prevVal i param values w) (\<lambda>(values, w).
       collect m prevVal params (Suc i) values w)"

text \<open>\<^verbatim>\<open>preset && preset(values[0], holder)\<close>\<close>

definition call_preset :: "'h dval \<Rightarrow> jsval \<Rightarrow> 'h world \<Rightarrow> error + 'h world \<times> call list" where
  "call_preset p v w =
     (if \<not> dtruthy p then Inr (w, [])
      else case p of
             DFun f \<Rightarrow> bindE (f [v] w) (\<lambda>(result, w). Inr (w, [CallPreset v]))
           | _ \<Rightarrow> Inl TypeError)"

text \<open>
  \<^verbatim>\<open>oldValues.forEach((value, i) => { if (values[i] === undefined) values[i] = value; })\<close>.
  The indices come in order, so an assignment past the end of \<^verbatim>\<open>values\<close> is always at
  its length. Only an array has \<^verbatim>\<open>forEach\<close>.
\<close>

definition assign :: "jsval list \<Rightarrow> nat \<Rightarrow> jsval \<Rightarrow> jsval list" where
  "assign values i v =
     (if i < length values then values[i := v]
      else values @ replicate (i - length values) Undefined @ [v])"

fun forEach_merge :: "jsval list \<Rightarrow> nat \<Rightarrow> jsval list \<Rightarrow> jsval list" where
  "forEach_merge [] i values = values"
| "forEach_merge (v # oldValues) i values =
     forEach_merge oldValues (Suc i)
       (if strictEq (nth_or_undefined values i) Undefined then assign values i v else values)"

fun merge_oldValues :: "jsval \<Rightarrow> jsval list \<Rightarrow> error + jsval list" where
  "merge_oldValues (Arr r oldValues) values = Inr (forEach_merge oldValues 0 values)"
| "merge_oldValues _ values = Inl TypeError"

definition prop_set :: "string \<Rightarrow> jsval \<Rightarrow> 'h world \<Rightarrow> 'h world" where
  "prop_set key v w = w\<lparr>model := (model w)(key := v)\<rparr>"

text \<open>
  The accessor of property \<open>key\<close>. \<open>m\<close> is the descriptor's \<^verbatim>\<open>meta\<close>, \<open>None\<close> when
  the descriptor has none. With arguments it is a setter and returns the holder; without,
  a getter. \<^verbatim>\<open>const values = []\<close> is a new array.
\<close>

definition accessor ::
  "string \<Rightarrow> 'h meta option \<Rightarrow> jsval list \<Rightarrow> 'h world \<Rightarrow> error + ret \<times> 'h world \<times> call list" where
  "accessor key meta params w =
     (let prevVal = model w key in
      if params \<noteq> [] then
        (let r = nextRef w; w = w\<lparr>nextRef := Suc r\<rparr> in
         case meta of
           None \<Rightarrow>
             let v = nth_or_undefined params 0 in Inr (Holder, prop_set key v w, [CallProp key v])
         | Some m \<Rightarrow>
             bindE (collect m prevVal params 0 [] w) (\<lambda>(values, w).
             let oldValues = model w key in
             bindE (call_preset (preset m) (nth_or_undefined values 0) w) (\<lambda>(w, calls).
             bindE (if spreadParams m then merge_oldValues oldValues values else Inr values)
               (\<lambda>values.
                 if values \<noteq> [] then
                   let v = (if spreadParams m then Arr r values else nth_or_undefined values 0)
                   in Inr (Holder, prop_set key v w, calls @ [CallProp key v])
                 else Inr (Holder, w, calls)))))
      else Inr (Value (model w key), w, []))"

section \<open>Example descriptors and stores\<close>

text \<open>
  The descriptors and states at which the theorems below are instantiated: a predicate that
  accepts numbers, a hook that does nothing, a scalar property with a type check and a
  \<^verbatim>\<open>preset\<close>, a two-valued \<^verbatim>\<open>spreadParams\<close> property with and without checks, a
  property with the \<^verbatim>\<open>'constructor'\<close> check, the sanitization \<^verbatim>\<open>v => v || 5\<close> and that
  property with it, a \<^verbatim>\<open>spreadParams\<close> property with the \<^verbatim>\<open>'constructor'\<close> check and no
  \<^verbatim>\<open>typeExpected\<close>, and a store that holds one property.
\<close>

abbreviation (input) isNumber :: "unit hook" where
  "isNumber \<equiv> (\<lambda>args w. Inr (Bool (case args of [Num n] \<Rightarrow> True | _ \<Rightarrow> False), w))"

abbreviation (input) noop :: "unit hook" where
  "noop \<equiv> (\<lambda>args w. Inr (Undefined, w))"

abbreviation (input) width_meta :: "unit meta" where
  "width_meta \<equiv> \<lparr>typeCheck = DFun isNumber, typeExpected = Undefined,
     sanitization = DVal Undefined, spreadParams = False, preset = DFun noop\<rparr>"

abbreviation (input) range_meta :: "unit meta" where
  "range_meta \<equiv> \<lparr>typeCheck = DArr [DFun isNumber, DFun isNumber], typeExpected = Undefined,
     sanitization = DVal Undefined, spreadParams = True, preset = DFun noop\<rparr>"

abbreviation (input) plain_range_meta :: "unit meta" where
  "plain_range_meta \<equiv> \<lparr>typeCheck = DVal Undefined, typeExpected = Undefined,
     sanitization = DVal Undefined, spreadParams = True, preset = DVal Undefined\<rparr>"

abbreviation (input) size_meta :: "unit meta" where
  "size_meta \<equiv> \<lparr>typeCheck = DVal (Str ''constructor''), typeExpected = Str ''Number'',
     sanitization = DVal Undefined, spreadParams = False, preset = DVal Undefined\<rparr>"

abbreviation (input) orFive :: "unit hook" where
  "orFive \<equiv> (\<lambda>args w. Inr (if truthy (nth_or_undefined args 0) then nth_or_undefined args 0
                               else Num (Fin 5), w))"

abbreviation (input) defaulting_size_meta :: "unit meta" where
  "defaulting_size_meta \<equiv> \<lparr>typeCheck = DVal (Str ''constructor''), typeExpected = Str ''Number'',
     sanitization = DFun orFive, spreadParams = False, preset = DVal Undefined\<rparr>"

abbreviation (input) untyped_range_meta :: "unit meta" where
  "untyped_range_meta \<equiv> \<lparr>typeCheck = DArr [DVal (Str ''constructor'')], typeExpected = Undefined,
     sanitization = DVal Undefined, spreadParams = True, preset = DVal Undefined\<rparr>"

abbreviation (input) store :: "string \<Rightarrow> jsval \<Rightarrow> ref \<Rightarrow> unit world" where
  "store key v n \<equiv> \<lparr>model = (\<lambda>k. Undefined)(key := v), nextRef = n, holder = ()\<rparr>"

section \<open>Properties of the sanitization helpers\<close>

lemma typeObj_not_object:
  "typeof obj \<noteq> ''object'' \<Longrightarrow> typeObj has r keys obj = Inr (ErrorObj r ''Argument type object expected'')"
  by (simp add: typeObj_def)

lemma checkExistence_loop_object:
  assumes "obj \<noteq> Null" and "typeof obj = ''object''"
  shows "checkExistence_loop has keys obj acc =
           Inr (acc @ filter (\<lambda>key. hasProperty has key obj = Inr False) keys)"
proof (induction keys arbitrary: acc)
  case Nil
  then show ?case by simp
next
  case (Cons key keys)
  from assms obtain present where "hasProperty has key obj = Inr present"
    by (cases obj) auto
  with Cons show ?case by simp
qed

lemma typeObj_object:
  assumes "obj \<noteq> Null" and "typeof obj = ''object''"
  shows "typeObj has r keys obj =
           (let missing = filter (\<lambda>key. hasProperty has key obj = Inr False) keys in
            if missing \<noteq> [] then Inr (ErrorObj r (''Missing keys from parameter '' @ join '', '' missing))
            else Inr obj)"
  using assms checkExistence_loop_object [OF assms, of has keys "[]"]
  by (simp add: typeObj_def checkExistence_def)

text \<open>
  C9, at the input \<^verbatim>\<open>sanitizeIP.typeObj(['a'], null)\<close>: \<^verbatim>\<open>typeof null\<close> is
  \<^verbatim>\<open>'object'\<close>, so the guard lets \<^verbatim>\<open>null\<close> through and \<^verbatim>\<open>'a' in null\<close>
  throws a TypeError instead of returning an Error value.
\<close>

theorem typeObj_null_throws:
  "typeObj has r [''a''] Null = Inl TypeError"
  by (simp add: typeObj_def checkExistence_def)

section \<open>Properties of \<^verbatim>\<open>unionDomain\<close>\<close>

lemma filter_length_arrays:
  "filter_length (map (\<lambda>d. Arr (fst d) (snd d)) ds) =
     Inr (map (\<lambda>d. Arr (fst d) (snd d)) (filter (\<lambda>d. snd d \<noteq> []) ds))"
  by (induction ds) auto

lemma concat_spread_arrays:
  "concat_spread (map (\<lambda>d. Arr (fst d) (snd d)) ds) = concat (map snd ds)"
  by (induction ds) auto

lemma concat_filter_nonempty:
  "concat (map snd (filter (\<lambda>d. snd d \<noteq> []) ds)) = concat (map snd ds)"
  by (induction ds) auto

text \<open>
  C6, as the code has it. For categorical domains \<^verbatim>\<open>unionDomain\<close> returns the values of
  the contributing arrays one after the other, in their order; a value that occurs in
  several of them occurs as often in the result.
\<close>

theorem unionDomain_categorical_concat:
  "unionDomain conv (map (\<lambda>(r, xs). Arr r xs) ds) (Str CATEGORICAL) = Inr (concat (map snd ds))"
  by (simp add: unionDomain_def split_def filter_length_arrays concat_spread_arrays
      concat_filter_nonempty)

text \<open>
  C6 as stated fails: \<^verbatim>\<open>['a', 'b']\<close> and \<^verbatim>\<open>['b', 'c']\<close> give
  \<^verbatim>\<open>['a', 'b', 'b', 'c']\<close>, not \<^verbatim>\<open>['a', 'b', 'c']\<close>.
\<close>

theorem unionDomain_categorical_keeps_duplicates:
  "unionDomain (\<lambda>v. NaN) [Arr 1 [Str ''a'', Str ''b''], Arr 2 [Str ''b'', Str ''c'']] (Str CATEGORICAL)
     = Inr [Str ''a'', Str ''b'', Str ''b'', Str ''c'']
   \<and> unionDomain (\<lambda>v. NaN) [Arr 1 [Str ''a'', Str ''b''], Arr 2 [Str ''b'', Str ''c'']] (Str CATEGORICAL)
     \<noteq> Inr [Str ''a'', Str ''b'', Str ''c'']"
  by (simp add: unionDomain_def)

lemma filter_length_pairs:
  "filter_length (map (\<lambda>d. Arr (fst d) [Num (Fin (fst (snd d))), Num (Fin (snd (snd d)))]) ds) =
     Inr (map (\<lambda>d. Arr (fst d) [Num (Fin (fst (snd d))), Num (Fin (snd (snd d)))]) ds)"
  by (induction ds) auto

lemma map_index_pairs0:
  "map_index 0 (map (\<lambda>d. Arr (fst d) [Num (Fin (fst (snd d))), Num (Fin (snd (snd d)))]) ds) =
     Inr (map (\<lambda>d. Num (Fin (fst (snd d)))) ds)"
  by (induction ds) (auto simp: nth_or_undefined_def)

lemma map_index_pairs1:
  "map_index (Suc 0) (map (\<lambda>d. Arr (fst d) [Num (Fin (fst (snd d))), Num (Fin (snd (snd d)))]) ds) =
     Inr (map (\<lambda>d. Num (Fin (snd (snd d)))) ds)"
  by (induction ds) (auto simp: nth_or_undefined_def)

lemma Min_insert_min:
  fixes a x :: real
  assumes "finite A"
  shows "Min (insert (min a x) A) = Min (insert a (insert x A))"
proof (cases "A = {}")
  case True
  then show ?thesis by simp
next
  case False
  with assms show ?thesis by (simp add: min.assoc)
qed

lemma Max_insert_max:
  fixes a x :: real
  assumes "finite A"
  shows "Max (insert (max a x) A) = Max (insert a (insert x A))"
proof (cases "A = {}")
  case True
  then show ?thesis by simp
next
  case False
  with assms show ?thesis by (simp add: max.assoc)
qed

lemma foldl_num_min_Fin:
  "foldl num_min (Fin a) (map (\<lambda>d. toNumber conv (Num (Fin (f d)))) ds) = Fin (Min (insert a (f ` set ds)))"
proof (induction ds arbitrary: a)
  case Nil
  then show ?case by simp
next
  case (Cons d ds)
  then show ?case by (simp add: Min_insert_min del: Min_insert)
qed

lemma foldl_num_max_Fin:
  "foldl num_max (Fin a) (map (\<lambda>d. toNumber conv (Num (Fin (f d)))) ds) = Fin (Max (insert a (f ` set ds)))"
proof (induction ds arbitrary: a)
  case Nil
  then show ?case by simp
next
  case (Cons d ds)
  then show ?case by (simp add: Max_insert_max del: Max_insert)
qed

lemma Math_min_Fin:
  "ds \<noteq> [] \<Longrightarrow> Math_min conv (map (\<lambda>d. Num (Fin (f d))) ds) = Num (Fin (Min (f ` set ds)))"
  using foldl_num_min_Fin [of _ conv f]
  by (cases ds) (simp_all add: Math_min_def comp_def del: Min_insert)

lemma Math_max_Fin:
  "ds \<noteq> [] \<Longrightarrow> Math_max conv (map (\<lambda>d. Num (Fin (f d))) ds) = Num (Fin (Max (f ` set ds)))"
  using foldl_num_max_Fin [of _ conv f]
  by (cases ds) (simp_all add: Math_max_def comp_def del: Max_insert)

lemma unionDomain_pairs:
  assumes "ds \<noteq> []" and "\<not> strictEq fieldType (Str CATEGORICAL)"
  shows "unionDomain conv (map (\<lambda>d. Arr (fst d) [Num (Fin (fst (snd d))), Num (Fin (snd (snd d)))]) ds) fieldType =
         Inr [Num (Fin (Min ((\<lambda>d. fst (snd d)) ` set ds))), Num (Fin (Max ((\<lambda>d. snd (snd d)) ` set ds)))]"
  using assms
  by (simp add: unionDomain_def filter_length_pairs map_index_pairs0 map_index_pairs1 Math_min_Fin Math_max_Fin)

text \<open>
  C7. For a non-empty list of continuous domains \<^verbatim>\<open>[lower, upper]\<close> and a field type
  other than categorical, \<^verbatim>\<open>unionDomain\<close> returns the least lower bound and the greatest
  upper bound, and a list with the same pairs in another order gives the same result.
\<close>

theorem unionDomain_continuous_min_max:
  assumes "ds \<noteq> []" and "\<not> strictEq fieldType (Str CATEGORICAL)"
  shows "unionDomain conv (map (\<lambda>(r, l, u). Arr r [Num (Fin l), Num (Fin u)]) ds) fieldType =
           Inr [Num (Fin (Min (set (map (\<lambda>(r, l, u). l) ds)))),
                Num (Fin (Max (set (map (\<lambda>(r, l, u). u) ds))))]
       \<and> (\<forall>ds'. mset (map snd ds') = mset (map snd ds) \<longrightarrow>
            unionDomain conv (map (\<lambda>(r, l, u). Arr r [Num (Fin l), Num (Fin u)]) ds') fieldType =
            unionDomain conv (map (\<lambda>(r, l, u). Arr r [Num (Fin l), Num (Fin u)]) ds) fieldType)"
proof (intro conjI allI impI)
  show "unionDomain conv (map (\<lambda>(r, l, u). Arr r [Num (Fin l), Num (Fin u)]) ds) fieldType =
           Inr [Num (Fin (Min (set (map (\<lambda>(r, l, u). l) ds)))),
                Num (Fin (Max (set (map (\<lambda>(r, l, u). u) ds))))]"
    using unionDomain_pairs [OF assms, of conv] by (simp add: split_def)
next
  fix ds' :: "(ref \<times> real \<times> real) list"
  assume perm: "mset (map snd ds') = mset (map snd ds)"
  then have "set (map snd ds') = set (map snd ds)"
    by (rule mset_eq_setD)
  then have sets: "snd ` set ds' = snd ` set ds"
    by simp
  from perm assms(1) have ne: "ds' \<noteq> []"
    by auto
  have lowers: "(\<lambda>d. fst (snd d)) ` set xs = fst ` snd ` set xs" for xs :: "(ref \<times> real \<times> real) list"
    by (simp add: image_image)
  have uppers: "(\<lambda>d. snd (snd d)) ` set xs = snd ` snd ` set xs" for xs :: "(ref \<times> real \<times> real) list"
    by (simp add: image_image)
  show "unionDomain conv (map (\<lambda>(r, l, u). Arr r [Num (Fin l), Num (Fin u)]) ds') fieldType =
        unionDomain conv (map (\<lambda>(r, l, u). Arr r [Num (Fin l), Num (Fin u)]) ds) fieldType"
    using unionDomain_pairs [OF ne assms(2), of conv] unionDomain_pairs [OF assms, of conv]
    by (simp add: split_def lowers uppers sets)
qed

text \<open>
  The domains \<^verbatim>\<open>[2, 10]\<close> and \<^verbatim>\<open>[-1, 5]\<close> give \<^verbatim>\<open>[-1, 10]\<close> in either order.
\<close>

theorem unionDomain_continuous_min_max_witness:
  "[(1, 2, 10), (2, -1, 5)] \<noteq> ([] :: (ref \<times> real \<times> real) list) \<and> \<not> strictEq (Str ''continuous'') (Str CATEGORICAL)
   \<and> unionDomain (\<lambda>v. NaN) [Arr 1 [Num (Fin 2), Num (Fin 10)], Arr 2 [Num (Fin (- 1)), Num (Fin 5)]] (Str ''continuous'')
      = Inr [Num (Fin (- 1)), Num (Fin 10)]
   \<and> unionDomain (\<lambda>v. NaN) [Arr 2 [Num (Fin (- 1)), Num (Fin 5)], Arr 1 [Num (Fin 2), Num (Fin 10)]] (Str ''continuous'')
      = unionDomain (\<lambda>v. NaN) [Arr 1 [Num (Fin 2), Num (Fin 10)], Arr 2 [Num (Fin (- 1)), Num (Fin 5)]] (Str ''continuous'')"
proof -
  have h1: "[(1, 2, 10), (2, -1, 5)] \<noteq> ([] :: (ref \<times> real \<times> real) list)" by simp
  have h2: "\<not> strictEq (Str ''continuous'') (Str CATEGORICAL)" by (simp add: CATEGORICAL_def)
  have h3: "mset (map snd [(2::ref, -1::real, 5::real), (1, 2, 10)]) = mset (map snd [(1::ref, 2::real, 10::real), (2, -1, 5)])" by simp
  note t = unionDomain_continuous_min_max [OF h1 h2, of "\<lambda>v. NaN"]
  from t have a: "unionDomain (\<lambda>v. NaN) [Arr 1 [Num (Fin 2), Num (Fin 10)], Arr 2 [Num (Fin (- 1)), Num (Fin 5)]] (Str ''continuous'')
      = Inr [Num (Fin (- 1)), Num (Fin 10)]" by simp
  from t have "mset (map snd [(2::ref, -1::real, 5::real), (1, 2, 10)]) = mset (map snd [(1::ref, 2::real, 10::real), (2, -1, 5)]) \<longrightarrow>
      unionDomain (\<lambda>v. NaN) (map (\<lambda>(r, l, u). Arr r [Num (Fin l), Num (Fin u)]) [(2, -1, 5), (1, 2, 10)]) (Str ''continuous'')
      = unionDomain (\<lambda>v. NaN) (map (\<lambda>(r, l, u). Arr r [Num (Fin l), Num (Fin u)]) [(1, 2, 10), (2, -1, 5)]) (Str ''continuous'')"
    by blast
  with h3 have b: "unionDomain (\<lambda>v. NaN) [Arr 2 [Num (Fin (- 1)), Num (Fin 5)], Arr 1 [Num (Fin 2), Num (Fin 10)]] (Str ''continuous'')
      = unionDomain (\<lambda>v. NaN) [Arr 1 [Num (Fin 2), Num (Fin 10)], Arr 2 [Num (Fin (- 1)), Num (Fin 5)]] (Str ''continuous'')"
    by simp
  from h1 h2 a b show ?thesis by blast
qed

section \<open>Properties of the change detection\<close>

lemmas category_defs = ROWS_def COLUMNS_def DETAIL_def SHAPE_def SIZE_def COLOR_def DATA_def CONFIG_def

text \<open>
  C4 as stated fails: for the property \<^verbatim>\<open>width\<close>, which is none of the categories, the
  pair \<^verbatim>\<open>[1, 2]\<close> is not reported as a change.
\<close>

theorem equalityChecker_unknown_unchanged:
  "equalityChecker [''width''] [(Num (Fin 1), Num (Fin 2))] = Inr False"
  by (simp add: equalityChecker_def pair_at_def checker_def category_defs)

text \<open>
  C4, as the code has it. For a property that is none of the recognized categories the
  \<^verbatim>\<open>default\<close> branch chooses \<^verbatim>\<open>() => true\<close>: every pair counts as equal, so
  \<^verbatim>\<open>equalityChecker\<close> reports no change, whatever the old and new values are.
\<close>

theorem checker_unrecognized_equal:
  assumes "option \<notin> {ROWS, COLUMNS, DETAIL, SHAPE, SIZE, COLOR, DATA, CONFIG}"
  shows "checker option oldVal newVal = Inr True
       \<and> equalityChecker [option] [(oldVal, newVal)] = Inr False"
  using assms by (simp add: checker_def equalityChecker_def pair_at_def)

text \<open>
  The property \<^verbatim>\<open>width\<close> with the pair \<^verbatim>\<open>[1, 2]\<close>.
\<close>

theorem checker_unrecognized_equal_witness:
  "''width'' \<notin> {ROWS, COLUMNS, DETAIL, SHAPE, SIZE, COLOR, DATA, CONFIG}
   \<and> checker ''width'' (Num (Fin 1)) (Num (Fin 2)) = Inr True
   \<and> equalityChecker [''width''] [(Num (Fin 1), Num (Fin 2))] = Inr False"
proof -
  have h: "''width'' \<notin> {ROWS, COLUMNS, DETAIL, SHAPE, SIZE, COLOR, DATA, CONFIG}"
    by (simp add: category_defs)
  from h checker_unrecognized_equal [OF h, of "Num (Fin 1)" "Num (Fin 2)"] show ?thesis by blast
qed

lemma changeListener_gate:
  assumes "equalityChecker props ps = Inr changed"
  shows "changeListener isEmpty mount downstream props ps w =
           bindE (updateChecker isEmpty props ps) (\<lambda>updateProps.
             if updateProps \<and> truthy mount then downstream w else Inr w)"
  using assms by (simp add: changeListener_def)

text \<open>
  C2, at an input where nothing changed: on a mounted canvas the listener is invoked for
  \<^verbatim>\<open>rows\<close>, \<^verbatim>\<open>columns\<close> and \<^verbatim>\<open>data\<close>; the new rows are another array with the
  same element, the columns and the non-empty data model are the same objects as before.
  \<^verbatim>\<open>equalityChecker\<close> reports no change, but its result is overwritten by that of
  \<^verbatim>\<open>updateChecker\<close> and the downstream work runs.
\<close>

theorem changeListener_ignores_equality:
  "equalityChecker [ROWS, COLUMNS, DATA]
     [(Arr 2 [Str ''a''], Arr 3 [Str ''a'']), (Arr 4 [Str ''b''], Arr 4 [Str ''b'']),
      (Obj 5 ''DataModel'', Obj 5 ''DataModel'')] = Inr False
   \<and> changeListener (\<lambda>v. Inr (Bool False)) (Obj 6 ''HTMLDivElement'') downstream
        [ROWS, COLUMNS, DATA]
        [(Arr 2 [Str ''a''], Arr 3 [Str ''a'']), (Arr 4 [Str ''b''], Arr 4 [Str ''b'']),
         (Obj 5 ''DataModel'', Obj 5 ''DataModel'')] w = downstream w"
  by (simp add: changeListener_def updateChecker_def valid_def equalityChecker_def pair_at_def
      checker_def isEqual_def arraysEqual_def nth_or_undefined_def category_defs)

lemma valid_invalid:
  assumes "(option = ROWS \<or> option = COLUMNS) \<and> val = Null
         \<or> option = DATA \<and> (\<not> truthy val \<or> (\<exists>e. isEmpty val = Inr e \<and> truthy e))"
  shows "valid isEmpty option val = Inr False"
  using assms by (auto simp: valid_def category_defs)

lemma updateChecker_every_invalid:
  assumes "j < length props" and "k + j < length ps"
    and "valid isEmpty (props ! j) (snd (ps ! (k + j))) = Inr False"
  shows "updateChecker_every isEmpty props k ps \<noteq> Inr True"
  using assms
proof (induction props arbitrary: j k)
  case Nil
  then show ?case by simp
next
  case (Cons option props)
  show ?case
  proof (cases j)
    case 0
    with Cons.prems show ?thesis
      by (cases "ps ! k") (simp add: pair_at_def)
  next
    case (Suc j')
    with Cons.prems have "updateChecker_every isEmpty props (Suc k) ps \<noteq> Inr True"
      by (intro Cons.IH [of j' "Suc k"]) simp_all
    then show ?thesis
      by (cases "ps ! k"; cases "valid isEmpty option (snd (ps ! k))") (auto simp: pair_at_def)
  qed
qed

text \<open>
  C5. If some watched property is \<^verbatim>\<open>rows\<close> or \<^verbatim>\<open>columns\<close> with the new value
  \<^verbatim>\<open>null\<close>, or is \<^verbatim>\<open>data\<close> with a new value that is absent or whose
  \<^verbatim>\<open>isEmpty()\<close> is true, then \<^verbatim>\<open>updateChecker\<close> does not pass (it is false, or a
  malformed value made it throw) and the listener does not run the downstream work: it
  leaves the state as it was, or ends with the exception.
\<close>

theorem invalid_update_suppresses_render:
  assumes "i < length props" and "i < length ps"
    and "(props ! i = ROWS \<or> props ! i = COLUMNS) \<and> snd (ps ! i) = Null
         \<or> props ! i = DATA \<and>
           (\<not> truthy (snd (ps ! i)) \<or> (\<exists>e. isEmpty (snd (ps ! i)) = Inr e \<and> truthy e))"
  shows "(updateChecker isEmpty props ps = Inr False \<or> updateChecker isEmpty props ps = Inl TypeError)
       \<and> (changeListener isEmpty mount downstream props ps w = Inr w
          \<or> changeListener isEmpty mount downstream props ps w = Inl TypeError)"
proof -
  from assms(3) have "valid isEmpty (props ! i) (snd (ps ! i)) = Inr False"
    by (rule valid_invalid)
  with assms(1,2) have ne: "updateChecker isEmpty props ps \<noteq> Inr True"
    unfolding updateChecker_def by (intro updateChecker_every_invalid [of i]) simp_all
  then have u: "updateChecker isEmpty props ps = Inr False \<or> updateChecker isEmpty props ps = Inl TypeError"
    by (cases "updateChecker isEmpty props ps") (auto intro: error.exhaust)
  then have "changeListener isEmpty mount downstream props ps w = Inr w
          \<or> changeListener isEmpty mount downstream props ps w = Inl TypeError"
    by (cases "equalityChecker props ps") (auto simp: changeListener_def intro: error.exhaust)
  with u show ?thesis by blast
qed

text \<open>
  Rows and columns are \<^verbatim>\<open>null\<close> and a non-empty data model is committed: the equality
  check reports a change, the validity filter is false and the state stays as it was.
\<close>

theorem invalid_update_suppresses_render_witness:
  "(0::nat) < length [ROWS, COLUMNS, DATA]
   \<and> (0::nat) < length [(Null, Null), (Null, Null), (Undefined, Obj 2 ''DataModel'')]
   \<and> equalityChecker [ROWS, COLUMNS, DATA]
        [(Null, Null), (Null, Null), (Undefined, Obj 2 ''DataModel'')] = Inr True
   \<and> updateChecker (\<lambda>v. Inr (Bool False)) [ROWS, COLUMNS, DATA]
        [(Null, Null), (Null, Null), (Undefined, Obj 2 ''DataModel'')] = Inr False
   \<and> changeListener (\<lambda>v. Inr (Bool False)) (Obj 3 ''HTMLDivElement'') (\<lambda>n. Inr (Suc n))
        [ROWS, COLUMNS, DATA] [(Null, Null), (Null, Null), (Undefined, Obj 2 ''DataModel'')] (0::nat)
       = Inr 0"
proof -
  let ?ps = "[(Null, Null), (Null, Null), (Undefined, Obj 2 ''DataModel'')]"
  have h1: "(0::nat) < length [ROWS, COLUMNS, DATA]" by simp
  have h2: "(0::nat) < length ?ps" by simp
  have h3: "([ROWS, COLUMNS, DATA] ! 0 = ROWS \<or> [ROWS, COLUMNS, DATA] ! 0 = COLUMNS)
            \<and> snd (?ps ! 0) = Null
         \<or> [ROWS, COLUMNS, DATA] ! 0 = DATA \<and>
           (\<not> truthy (snd (?ps ! 0))
            \<or> (\<exists>e. (\<lambda>v. Inr (Bool False)) (snd (?ps ! 0)) = Inr e \<and> truthy e))"
    by simp
  have e: "equalityChecker [ROWS, COLUMNS, DATA] ?ps = Inr True"
    by (simp add: equalityChecker_def pair_at_def checker_def isEqual_def)
  have u: "updateChecker (\<lambda>v. Inr (Bool False)) [ROWS, COLUMNS, DATA] ?ps \<noteq> Inl TypeError"
    by (simp add: updateChecker_def pair_at_def valid_def)
  have c: "changeListener (\<lambda>v. Inr (Bool False)) (Obj 3 ''HTMLDivElement'') (\<lambda>n. Inr (Suc n))
        [ROWS, COLUMNS, DATA] ?ps (0::nat) \<noteq> Inl TypeError"
    using e by (simp add: changeListener_def updateChecker_def pair_at_def valid_def)
  from invalid_update_suppresses_render
         [OF h1 h2 h3, of "Obj 3 ''HTMLDivElement''" "\<lambda>n. Inr (Suc n)" 0] c u h1 h2 e
  show ?thesis by blast
qed

section \<open>Properties of the accessors\<close>

lemma strictEq_Undefined [simp]: "strictEq x Undefined = (x = Undefined)"
  by (cases x) simp_all

lemma nth_or_undefined_Cons:
  "nth_or_undefined (v # vs) k = (case k of 0 \<Rightarrow> v | Suc k' \<Rightarrow> nth_or_undefined vs k')"
  by (simp add: nth_or_undefined_def split: nat.splits)

lemma forEach_merge_shape:
  assumes "i \<le> length values"
  shows "length (forEach_merge oldValues i values) = max (length values) (i + length oldValues)
       \<and> (\<forall>j. nth_or_undefined (forEach_merge oldValues i values) j =
              (if j < i then nth_or_undefined values j
               else if nth_or_undefined values j = Undefined then nth_or_undefined oldValues (j - i)
               else nth_or_undefined values j))"
  using assms
proof (induction oldValues arbitrary: i "values")
  case Nil
  then show ?case by (auto simp: nth_or_undefined_def)
next
  case (Cons v oldValues)
  define values' where
    "values' = (if nth_or_undefined values i = Undefined then assign values i v else values)"
  from Cons.prems have len: "Suc i \<le> length values'" "length values' = max (length values) (Suc i)"
    by (auto simp: values'_def assign_def nth_or_undefined_def)
  have nth: "nth_or_undefined values' j =
      (if j = i \<and> nth_or_undefined values i = Undefined then v else nth_or_undefined values j)" for j
    using Cons.prems by (auto simp: values'_def assign_def nth_or_undefined_def nth_append nth_list_update)
  have step: "forEach_merge (v # oldValues) i values = forEach_merge oldValues (Suc i) values'"
    by (simp add: values'_def)
  note IH = Cons.IH [OF len(1)]
  have "length (forEach_merge (v # oldValues) i values) = max (length values) (i + length (v # oldValues))"
    using IH len(2) unfolding step by simp
  moreover have "nth_or_undefined (forEach_merge (v # oldValues) i values) j =
              (if j < i then nth_or_undefined values j
               else if nth_or_undefined values j = Undefined then nth_or_undefined (v # oldValues) (j - i)
               else nth_or_undefined values j)" for j
  proof -
    consider "j < i" | "j = i" | "i < j" by linarith
    then show ?thesis
    proof cases
      case 1
      with IH show ?thesis unfolding step by (simp add: nth)
    next
      case 2
      with IH show ?thesis unfolding step by (simp add: nth nth_or_undefined_Cons)
    next
      case 3
      then obtain k where "j - i = Suc k" "j - Suc i = k"
        by (metis Suc_diff_Suc diff_Suc_eq_diff_pred diff_Suc_1)
      with 3 IH show ?thesis unfolding step by (simp add: nth nth_or_undefined_Cons)
    qed
  qed
  ultimately show ?case by blast
qed

lemma resolve_total: "\<exists>d'. resolve spread d i = Inr d'"
proof (cases d)
  case (DVal v)
  then show ?thesis by (cases v) (auto simp: resolve_def)
qed (auto simp: resolve_def)

lemma resolve_not_spread [simp]: "resolve False d i = Inr d"
  by (simp add: resolve_def)

lemma call_preset_calls:
  assumes "call_preset p v w = Inr (w', calls)"
  shows "calls = [] \<or> calls = [CallPreset v]"
proof (cases "dtruthy p")
  case False
  with assms show ?thesis by (simp add: call_preset_def)
next
  case True
  with assms show ?thesis
    by (cases p) (auto simp: call_preset_def elim!: bindE.elims split: prod.splits)
qed

text \<open>
  C1, as the code has it. The descriptor does not set \<^verbatim>\<open>spreadParams\<close>, the loop over
  the arguments ends with no accepted value (every supplied value was rejected), and the
  \<^verbatim>\<open>preset\<close> hook, if there is one, returns. Then the setter returns the holder without
  throwing and without a write to the store: the state is as the hooks left it, and unless
  a hook wrote the property itself, the getter called next returns the value stored before
  the call.
\<close>

theorem rejected_values_no_commit:
  assumes "params \<noteq> []" and "\<not> spreadParams m"
    and "collect m (model w key) params 0 [] (w\<lparr>nextRef := Suc (nextRef w)\<rparr>) = Inr ([], w1)"
    and "call_preset (preset m) Undefined w1 = Inr (w2, calls)"
  shows "accessor key (Some m) params w = Inr (Holder, w2, calls)
       \<and> (\<forall>k v. CallProp k v \<notin> set calls)
       \<and> (model w2 key = model w key \<longrightarrow>
            accessor key (Some m) [] w2 = Inr (Value (model w key), w2, []))"
proof -
  have "accessor key (Some m) params w = Inr (Holder, w2, calls)"
    using assms by (simp add: accessor_def nth_or_undefined_def Let_def)
  moreover have "\<forall>k v. CallProp k v \<notin> set calls"
    using call_preset_calls [OF assms(4)] by auto
  moreover have "model w2 key = model w key \<longrightarrow>
            accessor key (Some m) [] w2 = Inr (Value (model w key), w2, [])"
    by (simp add: accessor_def)
  ultimately show ?thesis by blast
qed

text \<open>
  The loop ends with no accepted value when, for instance, \<^verbatim>\<open>typeCheck\<close> is a predicate
  that answers something other than \<^verbatim>\<open>typeExpected\<close> (or \<^verbatim>\<open>true\<close>) on every argument.
\<close>

lemma collect_rejecting_typeCheck:
  assumes "\<not> spreadParams m" and "typeCheck m = DFun tc" and "\<forall>f. sanitization m \<noteq> DFun f"
    and "\<forall>v\<in>set params. \<exists>result. tc [v] w = Inr (result, w)
           \<and> \<not> strictEq result (if truthy (typeExpected m) then typeExpected m else Bool True)"
  shows "collect m prevVal params i values w = Inr (values, w)"
  using assms(4)
proof (induction params arbitrary: i)
  case Nil
  then show ?case by simp
next
  case (Cons v params)
  then obtain result where r: "tc [v] w = Inr (result, w)"
      "\<not> strictEq result (if truthy (typeExpected m) then typeExpected m else Bool True)"
    by auto
  have "collect_step m prevVal i v values w = Inr (values, w)"
    using assms(1-3) r by (cases "sanitization m") (auto simp: collect_step_def)
  with Cons show ?case by simp
qed

lemma forEach_merge_append:
  "forEach_merge oldValues (length values) values = values @ oldValues"
proof (induction oldValues arbitrary: "values")
  case Nil
  then show ?case by simp
next
  case (Cons v oldValues)
  from Cons [of "values @ [v]"] show ?case
    by (simp add: nth_or_undefined_def assign_def)
qed

lemma forEach_merge_nothing_accepted: "forEach_merge oldValues 0 [] = oldValues"
  using forEach_merge_append [of oldValues "[]"] by simp

text \<open>
  C8, as the code has it. The descriptor declares a \<^verbatim>\<open>preset\<close> function, the loop over the
  arguments has ended with \<^verbatim>\<open>values\<close>, the call of \<^verbatim>\<open>preset\<close> returns, and under
  \<^verbatim>\<open>spreadParams\<close> the stored value is an array. Then the setter calls \<^verbatim>\<open>preset\<close> with
  \<^verbatim>\<open>values[0]\<close>, which is \<^verbatim>\<open>undefined\<close> when no value was accepted, before any write to
  the store. If a value was accepted exactly one write follows: of \<^verbatim>\<open>values[0]\<close>, or under
  \<^verbatim>\<open>spreadParams\<close> of the new array of the merged values. If no value was accepted, no
  write follows when the descriptor does not set \<^verbatim>\<open>spreadParams\<close> or the stored array is
  empty; otherwise the elements of the stored array are written again, as a new array.
\<close>

theorem preset_called_before_commit:
  assumes "params \<noteq> []"
    and "collect m (model w key) params 0 [] (w\<lparr>nextRef := Suc (nextRef w)\<rparr>) = Inr (values, w1)"
    and "preset m = DFun f"
    and "f [nth_or_undefined values 0] w1 = Inr (x, w2)"
    and "spreadParams m \<longrightarrow> model w1 key = Arr r oldValues"
  shows "\<exists>w' commits.
           accessor key (Some m) params w =
             Inr (Holder, w', CallPreset (nth_or_undefined values 0) # commits)
         \<and> (values \<noteq> [] \<longrightarrow>
              (\<exists>v. commits = [CallProp key v] \<and> w' = prop_set key v w2
                 \<and> (\<not> spreadParams m \<longrightarrow> v = nth_or_undefined values 0)
                 \<and> (spreadParams m \<longrightarrow> v = Arr (nextRef w) (forEach_merge oldValues 0 values))))
         \<and> (values = [] \<longrightarrow>
              nth_or_undefined values 0 = Undefined
              \<and> (\<not> spreadParams m \<or> oldValues = [] \<longrightarrow> commits = [] \<and> w' = w2)
              \<and> (spreadParams m \<and> oldValues \<noteq> [] \<longrightarrow>
                   commits = [CallProp key (Arr (nextRef w) oldValues)]
                   \<and> w' = prop_set key (Arr (nextRef w) oldValues) w2))"
proof -
  have p: "call_preset (preset m) (nth_or_undefined values 0) w1 =
             Inr (w2, [CallPreset (nth_or_undefined values 0)])"
    using assms(3,4) by (simp add: call_preset_def)
  show ?thesis
  proof (cases "spreadParams m")
    case False
    with assms(1,2) p show ?thesis
      by (cases "values = []") (auto simp: accessor_def nth_or_undefined_def Let_def)
  next
    case True
    with assms(5) have old: "model w1 key = Arr r oldValues"
      by blast
    show ?thesis
    proof (cases "values = []")
      case True
      with \<open>spreadParams m\<close> assms(1,2) p old show ?thesis
        by (cases "oldValues = []")
           (auto simp: accessor_def Let_def nth_or_undefined_def forEach_merge_nothing_accepted)
    next
      case False
      have "length (forEach_merge oldValues 0 values) = max (length values) (length oldValues)"
        using forEach_merge_shape [of 0 "values" oldValues] by simp
      with False have ne: "forEach_merge oldValues 0 values \<noteq> []"
        by (cases "values") auto
      from \<open>spreadParams m\<close> False assms(1,2) p old ne show ?thesis
        by (auto simp: accessor_def Let_def)
    qed
  qed
qed

text \<open>
  C3, as the code has it. Under \<^verbatim>\<open>spreadParams\<close> the accepted values are merged with the
  stored array position by position and the result is stored as a new array: a position
  whose accepted value is \<^verbatim>\<open>undefined\<close>, or that lies past the accepted values, takes the
  stored array's entry. The positions are those of the accepted values: a rejected argument
  leaves no gap.
\<close>

theorem spread_merge_by_position:
  assumes "params \<noteq> []" and "spreadParams m"
    and "collect m (model w key) params 0 [] (w\<lparr>nextRef := Suc (nextRef w)\<rparr>) = Inr (values, w1)"
    and "call_preset (preset m) (nth_or_undefined values 0) w1 = Inr (w2, calls)"
    and "model w1 key = Arr r oldValues"
    and "values \<noteq> [] \<or> oldValues \<noteq> []"
  shows "\<exists>merged.
           accessor key (Some m) params w =
             Inr (Holder, prop_set key (Arr (nextRef w) merged) w2,
                  calls @ [CallProp key (Arr (nextRef w) merged)])
         \<and> length merged = max (length values) (length oldValues)
         \<and> (\<forall>i. nth_or_undefined merged i =
                (if nth_or_undefined values i = Undefined then nth_or_undefined oldValues i
                 else nth_or_undefined values i))"
proof -
  let ?merged = "forEach_merge oldValues 0 values"
  have shape: "length ?merged = max (length values) (length oldValues)"
      "\<forall>i. nth_or_undefined ?merged i =
                (if nth_or_undefined values i = Undefined then nth_or_undefined oldValues i
                 else nth_or_undefined values i)"
    using forEach_merge_shape [of 0 "values" oldValues] by simp_all
  from shape(1) assms(6) have ne: "?merged \<noteq> []"
    by (cases "values"; cases oldValues) auto
  have "accessor key (Some m) params w =
             Inr (Holder, prop_set key (Arr (nextRef w) ?merged) w2,
                  calls @ [CallProp key (Arr (nextRef w) ?merged)])"
    using assms(1-5) ne by (simp add: accessor_def Let_def)
  with shape show ?thesis by blast
qed

lemma constructor_step_falsy:
  assumes "resolve (spreadParams m) (typeCheck m) i = Inr (DVal (Str ''constructor''))"
    and "resolve (spreadParams m) (sanitization m) i = Inr s"
    and "(case s of DFun f \<Rightarrow> f [param, prevVal] w | _ \<Rightarrow> Inr (param, w)) = Inr (val, w')"
    and "\<not> truthy val"
    and "spreadParams m \<longrightarrow> typeExpected m \<noteq> Undefined \<and> typeExpected m \<noteq> Null"
  shows "collect_step m prevVal i param values w = Inr (values, w')"
proof -
  have "\<exists>e. (if spreadParams m then getIndex (typeExpected m) i else Inr (typeExpected m)) = Inr e"
    using assms(5) by (cases "typeExpected m") auto
  then obtain e where
    e: "(if spreadParams m then getIndex (typeExpected m) i else Inr (typeExpected m)) = Inr e"
    by blast
  show ?thesis
    using assms(1-4) e by (simp add: collect_step_def)
qed

text \<open>
  C10, as the code has it. In a round of the setter's loop whose type check is the string
  \<^verbatim>\<open>'constructor'\<close>, let \<open>val\<close> be the value that reaches the check: the argument itself,
  or what the sanitization function of this position returned for it. If \<open>val\<close> is falsy
  it is not pushed, and the round does not throw and leaves the state as the sanitization
  left it: \<^verbatim>\<open>val.constructor.name\<close>, which would throw on \<^verbatim>\<open>null\<close> and
  \<^verbatim>\<open>undefined\<close>, is not evaluated. Under \<^verbatim>\<open>spreadParams\<close> the code reads
  \<^verbatim>\<open>meta.typeExpected[i]\<close> before it looks at the value, so there \<^verbatim>\<open>typeExpected\<close> has
  to be given.
\<close>

theorem constructor_check_drops_falsy:
  assumes "resolve (spreadParams m) (typeCheck m) i = Inr (DVal (Str ''constructor''))"
    and "resolve (spreadParams m) (sanitization m) i = Inr s"
    and "(case s of DFun f \<Rightarrow> f [param, prevVal] w | _ \<Rightarrow> Inr (param, w)) = Inr (val, w')"
    and "\<not> truthy val"
    and "spreadParams m \<longrightarrow> typeExpected m \<noteq> Undefined \<and> typeExpected m \<noteq> Null"
  shows "collect_step m prevVal i param values w = Inr (values, w')"
  using assms by (rule constructor_step_falsy)

text \<open>
  C10 as stated fails. With the sanitization \<^verbatim>\<open>v => v || 5\<close> the falsy argument of
  \<^verbatim>\<open>size(null)\<close> is replaced before the check, and 5 is stored. Under
  \<^verbatim>\<open>spreadParams\<close> with no \<^verbatim>\<open>typeExpected\<close>, \<^verbatim>\<open>range(null)\<close> throws at
  \<^verbatim>\<open>meta.typeExpected[0]\<close>.
\<close>

theorem constructor_check_falsy_not_dropped:
  "accessor ''size'' (Some defaulting_size_meta) [Null] (store ''size'' (Num (Fin 3)) 2)
     = Inr (Holder, store ''size'' (Num (Fin 5)) 3, [CallProp ''size'' (Num (Fin 5))])
   \<and> accessor ''range'' (Some untyped_range_meta) [Null] (store ''range'' (Arr 2 []) 3)
     = Inl TypeError"
  by (simp add: accessor_def collect_step_def resolve_def call_preset_def prop_set_def
      nth_or_undefined_def assign_def Let_def)

lemmas accessor_eval = accessor_def collect_step_def resolve_def call_preset_def prop_set_def
  nth_or_undefined_def assign_def Let_def

text \<open>
  C1 as stated fails under \<^verbatim>\<open>spreadParams\<close>: both arguments fail the type check, and the
  stored elements are written back to the store as a new array.
\<close>

theorem spread_rejected_values_commit:
  "accessor ''range'' (Some range_meta) [Str ''a'', Str ''b'']
     (store ''range'' (Arr 2 [Num (Fin 1), Num (Fin 2)]) 3)
   = Inr (Holder, store ''range'' (Arr 3 [Num (Fin 1), Num (Fin 2)]) 4,
          [CallPreset Undefined, CallProp ''range'' (Arr 3 [Num (Fin 1), Num (Fin 2)])])"
  by (simp add: accessor_eval)

text \<open>
  The setter \<^verbatim>\<open>width('wide')\<close> of a descriptor that accepts numbers only.
\<close>

theorem rejected_values_no_commit_witness:
  "[Str ''wide''] \<noteq> [] \<and> \<not> spreadParams width_meta
   \<and> collect width_meta (model (store ''width'' (Num (Fin 100)) 2) ''width'') [Str ''wide''] 0 []
        (store ''width'' (Num (Fin 100)) 2\<lparr>nextRef := Suc (nextRef (store ''width'' (Num (Fin 100)) 2))\<rparr>)
       = Inr ([], store ''width'' (Num (Fin 100)) 3)
   \<and> call_preset (preset width_meta) Undefined (store ''width'' (Num (Fin 100)) 3)
       = Inr (store ''width'' (Num (Fin 100)) 3, [CallPreset Undefined])
   \<and> accessor ''width'' (Some width_meta) [Str ''wide''] (store ''width'' (Num (Fin 100)) 2)
       = Inr (Holder, store ''width'' (Num (Fin 100)) 3, [CallPreset Undefined])
   \<and> accessor ''width'' (Some width_meta) [] (store ''width'' (Num (Fin 100)) 3)
       = Inr (Value (Num (Fin 100)), store ''width'' (Num (Fin 100)) 3, [])"
proof -
  have h1: "[Str ''wide''] \<noteq> []" by simp
  have h2: "\<not> spreadParams width_meta" by simp
  have h3: "collect width_meta (model (store ''width'' (Num (Fin 100)) 2) ''width'') [Str ''wide''] 0 []
        (store ''width'' (Num (Fin 100)) 2\<lparr>nextRef := Suc (nextRef (store ''width'' (Num (Fin 100)) 2))\<rparr>)
       = Inr ([], store ''width'' (Num (Fin 100)) 3)"
    by (simp add: accessor_eval)
  have h4: "call_preset (preset width_meta) Undefined (store ''width'' (Num (Fin 100)) 3)
       = Inr (store ''width'' (Num (Fin 100)) 3, [CallPreset Undefined])"
    by (simp add: accessor_eval)
  from rejected_values_no_commit [OF h1 h2 h3 h4] h1 h2 h3 h4 show ?thesis
    by simp
qed


text \<open>
  C8 as stated fails under \<^verbatim>\<open>spreadParams\<close>: no value is accepted, \<^verbatim>\<open>preset\<close> is called
  with \<^verbatim>\<open>undefined\<close>, and a write of the stored elements follows.
\<close>

theorem preset_then_commit_of_old_values:
  "accessor ''range'' (Some range_meta) [Null]
     (store ''range'' (Arr 2 [Num (Fin 1), Num (Fin 2)]) 3)
   = Inr (Holder, store ''range'' (Arr 3 [Num (Fin 1), Num (Fin 2)]) 4,
          [CallPreset Undefined, CallProp ''range'' (Arr 3 [Num (Fin 1), Num (Fin 2)])])"
  by (simp add: accessor_eval)

text \<open>
  The setter \<^verbatim>\<open>range('x')\<close> on the stored \<^verbatim>\<open>[3, 4]\<close>: no value is accepted,
  \<^verbatim>\<open>preset\<close> is called with \<^verbatim>\<open>undefined\<close>, then \<^verbatim>\<open>[3, 4]\<close> is written again as a new
  array. The setter \<^verbatim>\<open>width('wide')\<close> calls \<^verbatim>\<open>preset\<close> and writes nothing.
\<close>

theorem preset_called_before_commit_witness:
  "[Str ''x''] \<noteq> []
   \<and> collect range_meta (model (store ''range'' (Arr 2 [Num (Fin 3), Num (Fin 4)]) 3) ''range'')
        [Str ''x''] 0 []
        (store ''range'' (Arr 2 [Num (Fin 3), Num (Fin 4)]) 3
           \<lparr>nextRef := Suc (nextRef (store ''range'' (Arr 2 [Num (Fin 3), Num (Fin 4)]) 3))\<rparr>)
       = Inr ([], store ''range'' (Arr 2 [Num (Fin 3), Num (Fin 4)]) 4)
   \<and> preset range_meta = DFun noop
   \<and> noop [nth_or_undefined [] 0] (store ''range'' (Arr 2 [Num (Fin 3), Num (Fin 4)]) 4)
       = Inr (Undefined, store ''range'' (Arr 2 [Num (Fin 3), Num (Fin 4)]) 4)
   \<and> spreadParams range_meta
   \<and> model (store ''range'' (Arr 2 [Num (Fin 3), Num (Fin 4)]) 4) ''range''
       = Arr 2 [Num (Fin 3), Num (Fin 4)]
   \<and> accessor ''range'' (Some range_meta) [Str ''x'']
        (store ''range'' (Arr 2 [Num (Fin 3), Num (Fin 4)]) 3)
       = Inr (Holder, store ''range'' (Arr 3 [Num (Fin 3), Num (Fin 4)]) 4,
              [CallPreset Undefined, CallProp ''range'' (Arr 3 [Num (Fin 3), Num (Fin 4)])])
   \<and> accessor ''width'' (Some width_meta) [Str ''wide''] (store ''width'' (Num (Fin 100)) 2)
       = Inr (Holder, store ''width'' (Num (Fin 100)) 3, [CallPreset Undefined])"
proof -
  let ?w = "store ''range'' (Arr 2 [Num (Fin 3), Num (Fin 4)]) 3"
  let ?w1 = "store ''range'' (Arr 2 [Num (Fin 3), Num (Fin 4)]) 4"
  have h1: "[Str ''x''] \<noteq> []" by simp
  have h2: "collect range_meta (model ?w ''range'') [Str ''x''] 0 []
        (?w\<lparr>nextRef := Suc (nextRef ?w)\<rparr>) = Inr ([], ?w1)"
    by (simp add: accessor_eval)
  have h3: "preset range_meta = DFun noop" by simp
  have h4: "noop [nth_or_undefined [] 0] ?w1 = Inr (Undefined, ?w1)" by simp
  have h5: "spreadParams range_meta \<longrightarrow> model ?w1 ''range'' = Arr 2 [Num (Fin 3), Num (Fin 4)]"
    by simp
  from preset_called_before_commit [OF h1 h2 h3 h4 h5]
  have a: "accessor ''range'' (Some range_meta) [Str ''x''] ?w
       = Inr (Holder, store ''range'' (Arr 3 [Num (Fin 3), Num (Fin 4)]) 4,
              [CallPreset Undefined, CallProp ''range'' (Arr 3 [Num (Fin 3), Num (Fin 4)])])"
    by (auto simp: nth_or_undefined_def prop_set_def)
  let ?v = "store ''width'' (Num (Fin 100)) 2"
  let ?v1 = "store ''width'' (Num (Fin 100)) 3"
  have g2: "collect width_meta (model ?v ''width'') [Str ''wide''] 0 []
        (?v\<lparr>nextRef := Suc (nextRef ?v)\<rparr>) = Inr ([], ?v1)"
    by (simp add: accessor_eval)
  have g3: "preset width_meta = DFun noop" by simp
  have g4: "noop [nth_or_undefined [] 0] ?v1 = Inr (Undefined, ?v1)" by simp
  have g5: "spreadParams width_meta \<longrightarrow> model ?v1 ''width'' = Arr 0 []"
    by simp
  from preset_called_before_commit [OF _ g2 g3 g4 g5]
  have b: "accessor ''width'' (Some width_meta) [Str ''wide''] ?v
       = Inr (Holder, ?v1, [CallPreset Undefined])"
    by (auto simp: nth_or_undefined_def)
  from h1 h2 h3 h4 a b show ?thesis by simp
qed

text \<open>
  C3 as stated fails for a descriptor whose type checks reject \<^verbatim>\<open>undefined\<close>:
  \<^verbatim>\<open>range(undefined, 5)\<close> after \<^verbatim>\<open>range(1, 2)\<close> stores \<^verbatim>\<open>[5, 2]\<close>.
\<close>

theorem spread_rejected_value_shifts:
  "bindE (accessor ''range'' (Some range_meta) [Num (Fin 1), Num (Fin 2)] (store ''range'' (Arr 2 []) 3))
     (\<lambda>(r, w, calls). accessor ''range'' (Some range_meta) [Undefined, Num (Fin 5)] w)
   = Inr (Holder, store ''range'' (Arr 4 [Num (Fin 5), Num (Fin 2)]) 5,
          [CallPreset (Num (Fin 5)), CallProp ''range'' (Arr 4 [Num (Fin 5), Num (Fin 2)])])"
  by (simp add: accessor_eval)

text \<open>
  For a descriptor without checks, \<^verbatim>\<open>range(undefined, 5)\<close> after \<^verbatim>\<open>range(1, 2)\<close>
  stores \<^verbatim>\<open>[1, 5]\<close>.
\<close>

theorem spread_merge_by_position_witness:
  "[Undefined, Num (Fin 5)] \<noteq> [] \<and> spreadParams plain_range_meta
   \<and> accessor ''range'' (Some plain_range_meta) [Num (Fin 1), Num (Fin 2)] (store ''range'' (Arr 2 []) 3)
       = Inr (Holder, store ''range'' (Arr 3 [Num (Fin 1), Num (Fin 2)]) 4,
              [CallProp ''range'' (Arr 3 [Num (Fin 1), Num (Fin 2)])])
   \<and> collect plain_range_meta (model (store ''range'' (Arr 3 [Num (Fin 1), Num (Fin 2)]) 4) ''range'')
        [Undefined, Num (Fin 5)] 0 []
        (store ''range'' (Arr 3 [Num (Fin 1), Num (Fin 2)]) 4
           \<lparr>nextRef := Suc (nextRef (store ''range'' (Arr 3 [Num (Fin 1), Num (Fin 2)]) 4))\<rparr>)
       = Inr ([Undefined, Num (Fin 5)], store ''range'' (Arr 3 [Num (Fin 1), Num (Fin 2)]) 5)
   \<and> accessor ''range'' (Some plain_range_meta) [Undefined, Num (Fin 5)]
        (store ''range'' (Arr 3 [Num (Fin 1), Num (Fin 2)]) 4)
       = Inr (Holder, store ''range'' (Arr 4 [Num (Fin 1), Num (Fin 5)]) 5,
              [CallProp ''range'' (Arr 4 [Num (Fin 1), Num (Fin 5)])])"
proof -
  let ?w = "store ''range'' (Arr 3 [Num (Fin 1), Num (Fin 2)]) 4"
  let ?w1 = "store ''range'' (Arr 3 [Num (Fin 1), Num (Fin 2)]) 5"
  have h1: "[Undefined, Num (Fin 5)] \<noteq> []" by simp
  have h2: "spreadParams plain_range_meta" by simp
  have h3: "collect plain_range_meta (model ?w ''range'') [Undefined, Num (Fin 5)] 0 []
        (?w\<lparr>nextRef := Suc (nextRef ?w)\<rparr>) = Inr ([Undefined, Num (Fin 5)], ?w1)"
    by (simp add: accessor_eval)
  have h4: "call_preset (preset plain_range_meta) (nth_or_undefined [Undefined, Num (Fin 5)] 0) ?w1
              = Inr (?w1, [])"
    by (simp add: accessor_eval)
  have h5: "model ?w1 ''range'' = Arr 3 [Num (Fin 1), Num (Fin 2)]" by simp
  have h6: "[Undefined, Num (Fin 5)] \<noteq> [] \<or> [Num (Fin 1), Num (Fin 2)] \<noteq> []" by simp
  have first: "accessor ''range'' (Some plain_range_meta) [Num (Fin 1), Num (Fin 2)] (store ''range'' (Arr 2 []) 3)
       = Inr (Holder, ?w, [CallProp ''range'' (Arr 3 [Num (Fin 1), Num (Fin 2)])])"
    by (simp add: accessor_eval)
  from spread_merge_by_position [OF h1 h2 h3 h4 h5 h6]
  obtain merged where m: "accessor ''range'' (Some plain_range_meta) [Undefined, Num (Fin 5)] ?w =
             Inr (Holder, prop_set ''range'' (Arr (nextRef ?w) merged) ?w1,
                  [] @ [CallProp ''range'' (Arr (nextRef ?w) merged)])"
     and len: "length merged = max (length [Undefined, Num (Fin 5)]) (length [Num (Fin 1), Num (Fin 2)])"
     and nth: "\<forall>i. nth_or_undefined merged i =
                (if nth_or_undefined [Undefined, Num (Fin 5)] i = Undefined
                 then nth_or_undefined [Num (Fin 1), Num (Fin 2)] i
                 else nth_or_undefined [Undefined, Num (Fin 5)] i)"
    by blast
  from len obtain a b where ab: "merged = [a, b]"
    by (cases merged; cases "tl merged"; cases "tl (tl merged)") auto
  from nth [rule_format, of 0] nth [rule_format, of 1] ab have "merged = [Num (Fin 1), Num (Fin 5)]"
    by (simp add: nth_or_undefined_def)
  with m have "accessor ''range'' (Some plain_range_meta) [Undefined, Num (Fin 5)] ?w
       = Inr (Holder, store ''range'' (Arr 4 [Num (Fin 1), Num (Fin 5)]) 5,
              [CallProp ''range'' (Arr 4 [Num (Fin 1), Num (Fin 5)])])"
    by (simp add: prop_set_def)
  with h1 h2 h3 first show ?thesis by simp
qed

text \<open>
  A setter call whose arguments are all falsy, on a descriptor with the
  \<^verbatim>\<open>'constructor'\<close> check and no hooks: it returns the holder and writes nothing.
\<close>

lemma setter_constructor_all_falsy:
  assumes "typeCheck m = DVal (Str ''constructor'')" and "\<not> spreadParams m"
    and "\<forall>f. sanitization m \<noteq> DFun f" and "\<not> dtruthy (preset m)"
    and "params \<noteq> []" and "\<forall>v\<in>set params. \<not> truthy v"
  shows "accessor key (Some m) params w = Inr (Holder, w\<lparr>nextRef := Suc (nextRef w)\<rparr>, [])"
proof -
  have unsanitized: "(case sanitization m of DFun f \<Rightarrow> f [v, prevVal] w' | _ \<Rightarrow> Inr (v, w')) = Inr (v, w')"
    for v prevVal and w' :: "'a world"
    using assms(3) by (cases "sanitization m") auto
  have "collect m prevVal ps i values w' = Inr (values, w')" if "\<forall>v\<in>set ps. \<not> truthy v"
    for prevVal ps i "values" and w' :: "'a world"
    using that
  proof (induction ps arbitrary: i)
    case Nil
    then show ?case by simp
  next
    case (Cons v ps)
    have "collect_step m prevVal i v values w' = Inr (values, w')"
      using assms(1,2) Cons.prems unsanitized
      by (intro constructor_step_falsy [where s = "sanitization m" and val = v]) simp_all
    with Cons show ?case by simp
  qed
  with assms show ?thesis
    by (simp add: accessor_def call_preset_def nth_or_undefined_def Let_def)
qed

text \<open>
  The value \<^verbatim>\<open>null\<close> in a setter that expects a \<^verbatim>\<open>Number\<close> and has no sanitization.
\<close>

theorem constructor_check_drops_falsy_witness:
  "resolve (spreadParams size_meta) (typeCheck size_meta) 0 = Inr (DVal (Str ''constructor''))
   \<and> resolve (spreadParams size_meta) (sanitization size_meta) 0 = Inr (DVal Undefined)
   \<and> \<not> truthy Null \<and> \<not> spreadParams size_meta
   \<and> constructorName Null = Inl TypeError
   \<and> collect_step size_meta (Num (Fin 3)) 0 Null [] (store ''size'' (Num (Fin 3)) 2)
       = Inr ([], store ''size'' (Num (Fin 3)) 2)"
proof -
  let ?w = "store ''size'' (Num (Fin 3)) 2"
  have h1: "resolve (spreadParams size_meta) (typeCheck size_meta) 0 = Inr (DVal (Str ''constructor''))"
    by simp
  have h2: "resolve (spreadParams size_meta) (sanitization size_meta) 0 = Inr (DVal Undefined)"
    by (simp add: resolve_def)
  have h3: "(case DVal Undefined of DFun f \<Rightarrow> f [Null, Num (Fin 3)] ?w | _ \<Rightarrow> Inr (Null, ?w))
              = Inr (Null, ?w)"
    by simp
  have h4: "\<not> truthy Null" by simp
  have h5: "spreadParams size_meta \<longrightarrow>
              typeExpected size_meta \<noteq> Undefined \<and> typeExpected size_meta \<noteq> Null"
    by simp
  from constructor_check_drops_falsy [OF h1 h2 h3 h4 h5] h1 h2 show ?thesis
    by simp
qed

end
